theory Spec2Isabelle
  imports Complex_Main
begin

section \<open>Data model (types.ts)\<close>

text \<open>
  JavaScript numbers that carry money (\<open>price\<close>, \<open>discount.value\<close>) are modelled as
  reals: the finite values of the source, without rounding, \<open>NaN\<close> or infinities.
  Counters and millisecond time stamps are integers. An optional field \<open>f?: T\<close> is
  \<open>T option\<close>, with \<open>None\<close> for \<open>undefined\<close>.
\<close>

datatype Duration = Monthly | Yearly | Lifetime

record SubscriptionPlan =
  plan_id :: string
  name :: string
  description :: string
  price :: real
  currency :: string
  duration :: Duration
  features :: "string list"
  originalPrice :: "real option"
  discountPercentage :: "real option"
  isPopular :: "bool option"
  productId :: "string option"

datatype DiscountType = Percentage | Fixed | Free_trial

record Discount =
  discount_type :: DiscountType
  discount_value :: real
  discount_duration :: "int option"

record Restrictions =
  newCustomersOnly :: "bool option"
  minimumPlan :: "string option"
  maximumDiscount :: "real option"

record PromoCode =
  promo_id :: string
  code :: string
  promo_description :: string
  discount :: Discount
  maxUses :: "int option"
  currentUses :: int
  validFrom :: string
  validUntil :: string
  isActive :: bool
  applicablePlans :: "string list option"
  restrictions :: "Restrictions option"

record PromoCodeValidation =
  isValid :: bool
  promoCode :: "PromoCode option"
  discountedPrice :: "real option"
  message :: string
  error :: "string option"

record PromoCodeApplication =
  applied_promoCode :: PromoCode
  originalPlan :: SubscriptionPlan
  discountedPlan :: SubscriptionPlan
  appliedAt :: int

section \<open>Host functions\<close>

text \<open>
  \<open>String(n)\<close> for an integer \<open>n\<close>, as the template literals of the source render
  \<open>Date.now()\<close> and \<open>discount.duration\<close>: decimal digits, with a minus sign
  for a negative number.
\<close>

definition digit_char :: "nat \<Rightarrow> char" where
  "digit_char d = ''0123456789'' ! d"

fun show_nat :: "nat \<Rightarrow> string" where
  "show_nat n = (if n < 10 then [digit_char n] else show_nat (n div 10) @ [digit_char (n mod 10)])"

definition show_int :: "int \<Rightarrow> string" where
  "show_int i = (if i < 0 then CHR ''-'' # show_nat (nat (- i)) else show_nat (nat i))"

text \<open>An optional number inside a template literal: \<open>undefined\<close> prints as that word.\<close>

definition show_opt_int :: "int option \<Rightarrow> string" where
  "show_opt_int d = (case d of None \<Rightarrow> ''undefined'' | Some i \<Rightarrow> show_int i)"

section \<open>Discount calculator (PromoCodeService.ts)\<close>

text \<open>
  \<open>calculateDiscountedPrice\<close>: the \<open>switch\<close> on \<open>discount.type\<close>. The
  \<open>default\<close> branch of the source (\<open>return plan.price\<close>) is unreachable for the
  three values the type admits.
\<close>

definition calculateDiscountedPrice :: "SubscriptionPlan \<Rightarrow> PromoCode \<Rightarrow> real" where
  "calculateDiscountedPrice plan pc =
     (case discount_type (discount pc) of
        Percentage \<Rightarrow> max 0 (price plan * (1 - discount_value (discount pc) / 100))
      | Fixed \<Rightarrow> max 0 (price plan - discount_value (discount pc))
      | Free_trial \<Rightarrow> 0)"

text \<open>
  \<open>applyDiscountToPlan\<close>: the object spread \<open>{...plan, price, description}\<close> builds a
  new plan value from the old one.
\<close>

definition applyDiscountToPlan :: "SubscriptionPlan \<Rightarrow> PromoCode \<Rightarrow> SubscriptionPlan" where
  "applyDiscountToPlan plan pc =
     (let discountedPrice = calculateDiscountedPrice plan pc
      in plan\<lparr>price := discountedPrice,
              description :=
                (if discount_type (discount pc) = Free_trial
                 then description plan @ '' - '' @ show_opt_int (discount_duration (discount pc))
                        @ '' days free trial''
                 else description plan)\<rparr>)"

section \<open>Code normalisation and the cache key\<close>

text \<open>
  \<open>normalizeCode\<close> is \<open>code.trim().toUpperCase().replace(/\s+/g, '')\<close>. Strings are
  byte strings here, so white space is the ASCII white space (space, tab, line feed,
  vertical tab, form feed, carriage return) and \<open>toUpperCase\<close> maps the letters
  \<open>a\<close> to \<open>z\<close>; characters beyond ASCII are left alone.
\<close>

definition isSpace :: "char \<Rightarrow> bool" where
  "isSpace c = (c \<in> set [CHR '' '', CHR 0x09, CHR 0x0A, CHR 0x0B, CHR 0x0C, CHR 0x0D])"

definition trim :: "string \<Rightarrow> string" where
  "trim s = rev (dropWhile isSpace (rev (dropWhile isSpace s)))"

definition upperChar :: "char \<Rightarrow> char" where
  "upperChar c =
     (case map_of (zip ''abcdefghijklmnopqrstuvwxyz'' ''ABCDEFGHIJKLMNOPQRSTUVWXYZ'') c of
        None \<Rightarrow> c | Some u \<Rightarrow> u)"

definition toUpperCase :: "string \<Rightarrow> string" where
  "toUpperCase s = map upperChar s"

definition normalizeCode :: "string \<Rightarrow> string" where
  "normalizeCode c = filter (\<lambda>ch. \<not> isSpace ch) (toUpperCase (trim c))"

text \<open>
  The \<open>userId\<close> argument of the service is declared \<open>userId?: string\<close>; the provider
  passes \<open>userId!\<close>, which is \<open>null\<close> until the stored id has been loaded. A template
  literal prints the three cases differently.
\<close>

datatype js_userId = Undefined | Null | UserId string

definition show_userId :: "js_userId \<Rightarrow> string" where
  "show_userId u = (case u of Undefined \<Rightarrow> ''undefined'' | Null \<Rightarrow> ''null'' | UserId s \<Rightarrow> s)"

definition show_planId :: "string option \<Rightarrow> string" where
  "show_planId p = (case p of None \<Rightarrow> ''undefined'' | Some s \<Rightarrow> s)"

text \<open>The key of \<open>validatePromoCode\<close>: \<open>`${code}_${planId}_${userId}`\<close>.\<close>

definition cacheKey :: "string \<Rightarrow> string option \<Rightarrow> js_userId \<Rightarrow> string" where
  "cacheKey c planId userId = c @ ''_'' @ show_planId planId @ ''_'' @ show_userId userId"

section \<open>The validation cache\<close>

text \<open>
  The state of a \<open>PromoCodeService\<close> instance. \<open>apiKey\<close> and \<open>debugMode\<close> only feed
  the request header and the log, and are left out. \<open>catalogCalls\<close> is not a field of
  the source: it counts the calls of \<open>validateWithBackend\<close> and \<open>mockValidate\<close>, so
  that "queries the catalog" can be observed.
\<close>

record PromoCodeService =
  backendUrl :: "string option"
  cache :: "string \<rightharpoonup> PromoCodeValidation"
  catalogCalls :: nat

definition cacheExpiry :: int where
  "cacheExpiry = 5 * 60 * 1000"

text \<open>
  \<open>getCachedValidation\<close>. \<open>dp\<close> is the host's \<open>Date.parse\<close>, with \<open>None\<close> for
  \<open>NaN\<close>, and \<open>now\<close> is \<open>Date.now()\<close>. \<open>age\<close> is the source's
  \<open>Date.now() - Date.parse(cached.message)\<close>, which is \<open>NaN\<close> when the message is no
  date; \<open>expired\<close> is the test \<open>age > this.cacheExpiry\<close>, false for \<open>NaN\<close>.
\<close>

definition age :: "(string \<Rightarrow> int option) \<Rightarrow> int \<Rightarrow> PromoCodeValidation \<Rightarrow> int option" where
  "age dp now cached = (case dp (message cached) of None \<Rightarrow> None | Some t \<Rightarrow> Some (now - t))"

definition expired :: "int option \<Rightarrow> bool" where
  "expired a = (case a of None \<Rightarrow> False | Some d \<Rightarrow> d > cacheExpiry)"

definition getCachedValidation ::
  "(string \<Rightarrow> int option) \<Rightarrow> int \<Rightarrow> string \<Rightarrow> PromoCodeService
     \<Rightarrow> PromoCodeValidation option \<times> PromoCodeService" where
  "getCachedValidation dp now key s =
     (case cache s key of
        None \<Rightarrow> (None, s)
      | Some cached \<Rightarrow>
          if expired (age dp now cached)
          then (None, s\<lparr>cache := (cache s)(key := None)\<rparr>)
          else (Some cached, s))"

definition stampMessage :: "int \<Rightarrow> string \<Rightarrow> string" where
  "stampMessage now m = (if CHR ''|'' \<in> set m then m else m @ ''|'' @ show_int now)"

definition setCachedValidation ::
  "int \<Rightarrow> string \<Rightarrow> PromoCodeValidation \<Rightarrow> PromoCodeService \<Rightarrow> PromoCodeService" where
  "setCachedValidation now key validation s =
     (let validationWithTimestamp = validation\<lparr>message := stampMessage now (message validation)\<rparr>
      in s\<lparr>cache := (cache s)(key \<mapsto> validationWithTimestamp)\<rparr>)"

definition clearCache :: "PromoCodeService \<Rightarrow> PromoCodeService" where
  "clearCache s = s\<lparr>cache := Map.empty\<rparr>"

section \<open>Date.parse\<close>

text \<open>
  \<open>Date.parse\<close> and \<open>new Date(string)\<close> belong to the JavaScript engine, not to the
  repository, so the service functions below take the parser as an argument \<open>dp\<close>.
  \<open>Date_parse\<close> is the parser used for concrete evaluation. It reads the form
  \<open>YYYY-MM-DDTHH:mm:ssZ\<close> of the ECMAScript Date Time String Format, which is the form of
  every date in the repository's data, and answers \<open>NaN\<close> for every other string, as
  ECMAScript demands for a string that is no date.
\<close>

definition digit_val :: "char \<Rightarrow> nat option" where
  "digit_val c = map_of (zip ''0123456789'' [0, 1, 2, 3, 4, 5, 6, 7, 8, 9]) c"

fun read_nat :: "nat \<Rightarrow> string \<Rightarrow> nat option" where
  "read_nat acc [] = Some acc"
| "read_nat acc (c # cs) =
     (case digit_val c of None \<Rightarrow> None | Some d \<Rightarrow> read_nat (10 * acc + d) cs)"

definition days_from_civil :: "int \<Rightarrow> int \<Rightarrow> int \<Rightarrow> int" where
  "days_from_civil y m d =
     (let y' = (if m \<le> 2 then y - 1 else y);
          era = y' div 400;
          yoe = y' - era * 400;
          doy = (153 * (if m > 2 then m - 3 else m + 9) + 2) div 5 + d - 1;
          doe = yoe * 365 + yoe div 4 - yoe div 100 + doy
      in era * 146097 + doe - 719468)"

definition Date_parse :: "string \<Rightarrow> int option" where
  "Date_parse s =
     (if length s = 20 \<and> s ! 4 = CHR ''-'' \<and> s ! 7 = CHR ''-'' \<and> s ! 10 = CHR ''T''
         \<and> s ! 13 = CHR '':'' \<and> s ! 16 = CHR '':'' \<and> s ! 19 = CHR ''Z''
      then
        (case (read_nat 0 (take 4 s), read_nat 0 (take 2 (drop 5 s)),
               read_nat 0 (take 2 (drop 8 s)), read_nat 0 (take 2 (drop 11 s)),
               read_nat 0 (take 2 (drop 14 s)), read_nat 0 (take 2 (drop 17 s))) of
           (Some y, Some m, Some d, Some h, Some mi, Some sec) \<Rightarrow>
             if 1 \<le> m \<and> m \<le> 12 \<and> 1 \<le> d \<and> d \<le> 31 \<and> h \<le> 23 \<and> mi \<le> 59 \<and> sec \<le> 59
             then Some ((((days_from_civil (int y) (int m) (int d) * 24 + int h) * 60 + int mi) * 60
                          + int sec) * 1000)
             else None
         | _ \<Rightarrow> None)
      else None)"

section \<open>Mock catalog and mock validation\<close>

text \<open>\<open>getMockPromoCodes()\<close> as \<open>mockValidate\<close> calls it, without filters.\<close>

definition SAVE20 :: PromoCode where
  "SAVE20 =
     \<lparr>promo_id = ''1'', code = ''SAVE20'',
      promo_description = ''Save 20% on your first subscription'',
      discount = \<lparr>discount_type = Percentage, discount_value = 20, discount_duration = None\<rparr>,
      maxUses = Some 1000, currentUses = 342,
      validFrom = ''2024-01-01T00:00:00Z'', validUntil = ''2024-12-31T23:59:59Z'',
      isActive = True, applicablePlans = Some [''monthly'', ''yearly''],
      restrictions = Some \<lparr>newCustomersOnly = Some True, minimumPlan = None,
                            maximumDiscount = None\<rparr>\<rparr>"

definition FREEMONTH :: PromoCode where
  "FREEMONTH =
     \<lparr>promo_id = ''2'', code = ''FREEMONTH'',
      promo_description = ''Get your first month free'',
      discount = \<lparr>discount_type = Free_trial, discount_value = 30, discount_duration = Some 30\<rparr>,
      maxUses = Some 500, currentUses = 198,
      validFrom = ''2024-01-01T00:00:00Z'', validUntil = ''2024-06-30T23:59:59Z'',
      isActive = True, applicablePlans = Some [''monthly''],
      restrictions = Some \<lparr>newCustomersOnly = Some True, minimumPlan = None,
                            maximumDiscount = None\<rparr>\<rparr>"

definition SPECIAL50 :: PromoCode where
  "SPECIAL50 =
     \<lparr>promo_id = ''3'', code = ''SPECIAL50'',
      promo_description = ''$50 off annual subscription'',
      discount = \<lparr>discount_type = Fixed, discount_value = 50, discount_duration = None\<rparr>,
      maxUses = Some 200, currentUses = 67,
      validFrom = ''2024-01-01T00:00:00Z'', validUntil = ''2024-03-31T23:59:59Z'',
      isActive = True, applicablePlans = Some [''yearly''],
      restrictions = None\<rparr>"

definition getMockPromoCodes :: "PromoCode list" where
  "getMockPromoCodes = [SAVE20, FREEMONTH, SPECIAL50]"

definition getMockPlans :: "SubscriptionPlan list" where
  "getMockPlans =
     [\<lparr>plan_id = ''monthly'', name = ''Monthly Premium'', description = ''Monthly subscription'',
       price = 999 / 100, currency = ''USD'', duration = Monthly, features = [],
       originalPrice = None, discountPercentage = None, isPopular = None, productId = None\<rparr>,
      \<lparr>plan_id = ''yearly'', name = ''Annual Premium'', description = ''Annual subscription'',
       price = 9999 / 100, currency = ''USD'', duration = Yearly, features = [],
       originalPrice = None, discountPercentage = None, isPopular = None, productId = None\<rparr>]"

text \<open>Truthiness of an optional string: \<open>undefined\<close> and \<open>''\<close> are falsy.\<close>

definition truthy :: "string option \<Rightarrow> bool" where
  "truthy x = (case x of None \<Rightarrow> False | Some s \<Rightarrow> s \<noteq> [])"

text \<open>\<open>a < b\<close> on a valid date \<open>a\<close> and a date \<open>b\<close> that may be invalid (\<open>NaN\<close>).\<close>

definition date_lt :: "int \<Rightarrow> int option \<Rightarrow> bool" where
  "date_lt a b = (case b of None \<Rightarrow> False | Some t \<Rightarrow> a < t)"

definition date_gt :: "int \<Rightarrow> int option \<Rightarrow> bool" where
  "date_gt a b = (case b of None \<Rightarrow> False | Some t \<Rightarrow> a > t)"

definition invalid :: "string \<Rightarrow> string \<Rightarrow> PromoCodeValidation" where
  "invalid msg err =
     \<lparr>isValid = False, promoCode = None, discountedPrice = None, message = msg, error = Some err\<rparr>"

text \<open>
  \<open>mockValidate\<close>. Its first two arguments are the values of the source's local constants
  \<open>mockPromoCodes\<close> and \<open>mockPlans\<close>, which the service fills from
  \<open>getMockPromoCodes()\<close> and \<open>getMockPlans()\<close>; \<open>now\<close> is \<open>new Date()\<close> after the
  simulated delay.
\<close>

definition mockValidate ::
  "PromoCode list \<Rightarrow> SubscriptionPlan list \<Rightarrow> (string \<Rightarrow> int option) \<Rightarrow> int \<Rightarrow> string
     \<Rightarrow> string option \<Rightarrow> PromoCodeValidation" where
  "mockValidate mockPromoCodes mockPlans dp now c planId =
     (case find (\<lambda>pc. code pc = c) mockPromoCodes of
        None \<Rightarrow> invalid ''Invalid promo code'' ''CODE_NOT_FOUND''
      | Some pc \<Rightarrow>
          if \<not> isActive pc then invalid ''Invalid promo code'' ''CODE_NOT_FOUND''
          else if date_lt now (dp (validFrom pc)) \<or> date_gt now (dp (validUntil pc))
          then invalid ''Promo code has expired'' ''CODE_EXPIRED''
          else if (case maxUses pc of None \<Rightarrow> False | Some m \<Rightarrow> m \<noteq> 0 \<and> currentUses pc \<ge> m)
          then invalid ''Promo code has been fully redeemed'' ''CODE_EXHAUSTED''
          else if (case applicablePlans pc of None \<Rightarrow> False
                   | Some ps \<Rightarrow> truthy planId \<and> show_planId planId \<notin> set ps)
          then invalid ''Promo code is not applicable to this plan'' ''PLAN_NOT_APPLICABLE''
          else
            \<lparr>isValid = True, promoCode = Some pc,
             discountedPrice =
               (if truthy planId
                then (case find (\<lambda>p. plan_id p = show_planId planId) mockPlans of
                        None \<Rightarrow> None
                      | Some plan \<Rightarrow> Some (calculateDiscountedPrice plan pc))
                else None),
             message = ''Promo code applied successfully'', error = None\<rparr>)"

section \<open>Collaborators\<close>

text \<open>
  A thrown value: a JavaScript \<open>Error\<close> with its message, or the repository's
  \<open>PaywallError\<close> with its code and message.
\<close>

datatype exn = JsError string | PaywallError string string

definition exn_message :: "exn \<Rightarrow> string" where
  "exn_message e = (case e of JsError m \<Rightarrow> m | PaywallError c m \<Rightarrow> m)"

text \<open>The fields of \<open>PurchaseInfo\<close> and of the status response that the provider passes on.\<close>

record PurchaseInfo =
  transactionId :: string
  finalPrice :: real

record SubscriptionStatusResponse =
  status_isActive :: bool
  entitlements :: "string list"

text \<open>
  What lies outside the repository: the engine's date parser and the outcome of each
  request to the backend and to the billing service. \<open>Inl\<close> is a rejected promise
  (transport failure, a status that is not \<open>ok\<close>, or the service's own error),
  \<open>Inr\<close> the decoded answer.
\<close>

record host =
  date_parse :: "string \<Rightarrow> int option"
  fetch_validate :: "string \<Rightarrow> string option \<Rightarrow> js_userId \<Rightarrow> exn + PromoCodeValidation"
  fetch_redeem :: "string \<Rightarrow> js_userId \<Rightarrow> string option \<Rightarrow> exn + unit"
  billing_purchase :: "SubscriptionPlan \<Rightarrow> string option \<Rightarrow> exn + PurchaseInfo"
  billing_status :: "exn + SubscriptionStatusResponse"

text \<open>
  The clock readings of one call: \<open>Date.now()\<close> in \<open>getCachedValidation\<close>,
  \<open>new Date()\<close> in \<open>mockValidate\<close>, \<open>Date.now()\<close> in \<open>setCachedValidation\<close>
  and \<open>new Date()\<close> in \<open>applyPromoCode\<close>.
\<close>

record clock =
  t_lookup :: int
  t_check :: int
  t_store :: int
  t_applied :: int

section \<open>PromoCodeService: validate, apply, redeem\<close>

definition validateWithBackend ::
  "host \<Rightarrow> string \<Rightarrow> string option \<Rightarrow> js_userId \<Rightarrow> exn + PromoCodeValidation" where
  "validateWithBackend h c planId userId = fetch_validate h c planId userId"

definition countCall :: "PromoCodeService \<Rightarrow> PromoCodeService" where
  "countCall s = s\<lparr>catalogCalls := Suc (catalogCalls s)\<rparr>"

text \<open>The body of the \<open>try\<close> block of \<open>validatePromoCode\<close>.\<close>

definition validatePromoCode_try ::
  "host \<Rightarrow> clock \<Rightarrow> string \<Rightarrow> string option \<Rightarrow> js_userId \<Rightarrow> PromoCodeService
     \<Rightarrow> (exn + PromoCodeValidation) \<times> PromoCodeService" where
  "validatePromoCode_try h clk c planId userId s =
     (let key = cacheKey c planId userId;
          (cached, s1) = getCachedValidation (date_parse h) (t_lookup clk) key s
      in case cached of
           Some v \<Rightarrow> (Inr v, s1)
         | None \<Rightarrow>
             (let normalizedCode = normalizeCode c
              in if truthy (backendUrl s1)
                 then (case validateWithBackend h normalizedCode planId userId of
                         Inl e \<Rightarrow> (Inl e, countCall s1)
                       | Inr validation \<Rightarrow>
                           (Inr validation,
                            setCachedValidation (t_store clk) key validation (countCall s1)))
                 else (let validation =
                             mockValidate getMockPromoCodes getMockPlans (date_parse h)
                               (t_check clk) normalizedCode planId
                       in (Inr validation,
                           setCachedValidation (t_store clk) key validation (countCall s1)))))"

text \<open>
  \<open>validatePromoCode\<close>: the \<open>try\<close> block and its \<open>catch\<close>. The result is the
  outcome of the promise: \<open>Inl\<close> if it rejects, \<open>Inr\<close> if it resolves.
\<close>

definition validatePromoCode ::
  "host \<Rightarrow> clock \<Rightarrow> string \<Rightarrow> string option \<Rightarrow> js_userId \<Rightarrow> PromoCodeService
     \<Rightarrow> (exn + PromoCodeValidation) \<times> PromoCodeService" where
  "validatePromoCode h clk c planId userId s =
     (case validatePromoCode_try h clk c planId userId s of
        (Inl e, s') \<Rightarrow> (Inr (invalid ''Invalid promo code'' ''VALIDATION_FAILED''), s')
      | (Inr v, s') \<Rightarrow> (Inr v, s'))"

text \<open>
  \<open>applyPromoCode\<close> of the service: its \<open>catch\<close> logs and throws the error again.
\<close>

definition applyPromoCode ::
  "host \<Rightarrow> clock \<Rightarrow> string \<Rightarrow> SubscriptionPlan \<Rightarrow> js_userId \<Rightarrow> PromoCodeService
     \<Rightarrow> (exn + PromoCodeApplication) \<times> PromoCodeService" where
  "applyPromoCode h clk c plan userId s =
     (case validatePromoCode h clk c (Some (plan_id plan)) userId s of
        (Inl e, s') \<Rightarrow> (Inl e, s')
      | (Inr validation, s') \<Rightarrow>
          (case promoCode validation of
             Some pc \<Rightarrow>
               if isValid validation
               then (Inr \<lparr>applied_promoCode = pc, originalPlan = plan,
                          discountedPlan = applyDiscountToPlan plan pc,
                          appliedAt = t_applied clk\<rparr>, s')
               else (Inl (PaywallError ''INVALID_PROMO_CODE''
                            (if message validation = [] then ''Invalid promo code''
                             else message validation)), s')
           | None \<Rightarrow>
               (Inl (PaywallError ''INVALID_PROMO_CODE''
                       (if message validation = [] then ''Invalid promo code''
                        else message validation)), s')))"

definition redeemWithBackend ::
  "host \<Rightarrow> string \<Rightarrow> js_userId \<Rightarrow> string option \<Rightarrow> exn + unit" where
  "redeemWithBackend h c userId purchaseId = fetch_redeem h c userId purchaseId"

text \<open>\<open>redeemPromoCode\<close>; \<open>mockRedeem\<close> only writes to the log.\<close>

definition redeemPromoCode ::
  "host \<Rightarrow> string \<Rightarrow> js_userId \<Rightarrow> string option \<Rightarrow> PromoCodeService \<Rightarrow> exn + unit" where
  "redeemPromoCode h c userId purchaseId s =
     (case (if truthy (backendUrl s) then redeemWithBackend h c userId purchaseId else Inr ()) of
        Inl e \<Rightarrow> Inl (PaywallError ''REDEEM_FAILED'' ''Failed to redeem promo code'')
      | Inr u \<Rightarrow> Inr ())"

section \<open>PaywallProvider: state and reducers\<close>

datatype PurchaseState = Idle | Processing | Success | Error

record PaywallState =
  isVisible :: bool
  selectedPlan :: "SubscriptionPlan option"
  isLoading :: bool
  paywall_error :: "string option"
  purchaseState :: PurchaseState

record PromoCodeState =
  input_code :: string
  validation :: "PromoCodeValidation option"
  isApplying :: bool
  appliedPromo :: "PromoCodeApplication option"

definition initialPaywallState :: PaywallState where
  "initialPaywallState =
     \<lparr>isVisible = False, selectedPlan = None, isLoading = False, paywall_error = None,
      purchaseState = Idle\<rparr>"

definition initialPromoCodeState :: PromoCodeState where
  "initialPromoCodeState =
     \<lparr>input_code = [], validation = None, isApplying = False, appliedPromo = None\<rparr>"

datatype PaywallAction =
    SHOW_PAYWALL
  | HIDE_PAYWALL
  | SELECT_PLAN SubscriptionPlan
  | SET_LOADING bool
  | SET_ERROR "string option"
  | SET_PURCHASE_STATE PurchaseState

datatype PromoCodeAction =
    SET_CODE string
  | SET_VALIDATION "PromoCodeValidation option"
  | SET_APPLYING bool
  | SET_APPLIED_PROMO "PromoCodeApplication option"
  | CLEAR_PROMO_CODE

fun paywallReducer :: "PaywallState \<Rightarrow> PaywallAction \<Rightarrow> PaywallState" where
  "paywallReducer state SHOW_PAYWALL = state\<lparr>isVisible := True, paywall_error := None\<rparr>"
| "paywallReducer state HIDE_PAYWALL =
     state\<lparr>isVisible := False, selectedPlan := None, paywall_error := None\<rparr>"
| "paywallReducer state (SELECT_PLAN p) = state\<lparr>selectedPlan := Some p\<rparr>"
| "paywallReducer state (SET_LOADING b) = state\<lparr>isLoading := b\<rparr>"
| "paywallReducer state (SET_ERROR e) = state\<lparr>paywall_error := e\<rparr>"
| "paywallReducer state (SET_PURCHASE_STATE ps) = state\<lparr>purchaseState := ps\<rparr>"

fun promoCodeReducer :: "PromoCodeState \<Rightarrow> PromoCodeAction \<Rightarrow> PromoCodeState" where
  "promoCodeReducer state (SET_CODE c) = state\<lparr>input_code := c\<rparr>"
| "promoCodeReducer state (SET_VALIDATION v) = state\<lparr>validation := v\<rparr>"
| "promoCodeReducer state (SET_APPLYING b) = state\<lparr>isApplying := b\<rparr>"
| "promoCodeReducer state (SET_APPLIED_PROMO a) = state\<lparr>appliedPromo := a\<rparr>"
| "promoCodeReducer state CLEAR_PROMO_CODE =
     state\<lparr>input_code := [], validation := None, appliedPromo := None\<rparr>"

text \<open>
  Calls that leave the provider, in the order they are made: the billing and redemption
  requests, the optional event handlers, and the timer that \<open>purchasePlan\<close> sets.
  The log is not a field of the source; handlers are taken to return normally.
\<close>

datatype event =
    BillingPurchase SubscriptionPlan "string option"
  | RedeemCall string js_userId
  | OnPurchaseStart SubscriptionPlan
  | OnPurchaseSuccess PurchaseInfo
  | OnPurchaseError string
  | OnPromoCodeApplied PromoCodeApplication
  | OnPromoCodeError string
  | OnPaywallClose
  | SetTimeout nat

text \<open>
  The provider: the two reducer states, the \<open>useState\<close> cells and the service
  instance. \<open>userId\<close> is \<open>Null\<close> until the stored id is loaded.
\<close>

record provider =
  paywallState :: PaywallState
  promoCodeState :: PromoCodeState
  subscriptionStatus :: "SubscriptionStatusResponse option"
  userId :: js_userId
  promoCodeService :: PromoCodeService
  events :: "event list"

definition dispatchPaywall :: "PaywallAction \<Rightarrow> provider \<Rightarrow> provider" where
  "dispatchPaywall a s = s\<lparr>paywallState := paywallReducer (paywallState s) a\<rparr>"

definition dispatchPromo :: "PromoCodeAction \<Rightarrow> provider \<Rightarrow> provider" where
  "dispatchPromo a s = s\<lparr>promoCodeState := promoCodeReducer (promoCodeState s) a\<rparr>"

definition emit :: "event \<Rightarrow> provider \<Rightarrow> provider" where
  "emit e s = s\<lparr>events := events s @ [e]\<rparr>"

section \<open>PaywallProvider: actions\<close>

definition hidePaywall :: "provider \<Rightarrow> provider" where
  "hidePaywall s = emit OnPaywallClose (dispatchPaywall HIDE_PAYWALL s)"

definition selectPlan :: "SubscriptionPlan \<Rightarrow> provider \<Rightarrow> provider" where
  "selectPlan plan s = dispatchPaywall (SELECT_PLAN plan) s"

text \<open>\<open>refreshSubscriptionStatus\<close> catches every failure and leaves the status as it was.\<close>

definition refreshSubscriptionStatus :: "host \<Rightarrow> provider \<Rightarrow> provider" where
  "refreshSubscriptionStatus h s =
     (case billing_status h of
        Inl e \<Rightarrow> s
      | Inr status \<Rightarrow> s\<lparr>subscriptionStatus := Some status\<rparr>)"

text \<open>
  \<open>purchasePlan\<close> runs up to \<open>await paywallService.purchasePlan(...)\<close>, where it is
  suspended until billing answers, and then runs to its end. \<open>purchasePlan_start\<close> is the
  first part: it returns either the finished call (no plan selected) or the state in which
  the call waits, with the plan and promo code it has sent to billing.
\<close>

datatype suspended = Returned provider | AwaitBilling provider SubscriptionPlan "string option"

definition purchasePlan_start :: "provider \<Rightarrow> suspended" where
  "purchasePlan_start s =
     (case selectedPlan (paywallState s) of
        None \<Rightarrow> Returned (dispatchPaywall (SET_ERROR (Some ''No plan selected'')) s)
      | Some plan \<Rightarrow>
          (let s1 = dispatchPaywall (SET_LOADING True) s;
               s2 = dispatchPaywall (SET_PURCHASE_STATE Processing) s1;
               s3 = emit (OnPurchaseStart plan) s2;
               promo = map_option (\<lambda>a. code (applied_promoCode a)) (appliedPromo (promoCodeState s));
               s4 = emit (BillingPurchase plan promo) s3
           in AwaitBilling s4 plan promo))"

text \<open>
  The rest of the \<open>try\<close> block, from the answer of billing on: \<open>Some e\<close> if an
  exception leaves the block.
\<close>

definition purchasePlan_try ::
  "host \<Rightarrow> string option \<Rightarrow> exn + PurchaseInfo \<Rightarrow> provider \<Rightarrow> exn option \<times> provider" where
  "purchasePlan_try h promo outcome s =
     (case outcome of
        Inl e \<Rightarrow> (Some e, s)
      | Inr purchaseInfo \<Rightarrow>
          (let s1 = refreshSubscriptionStatus h s;
               s2 = dispatchPaywall (SET_PURCHASE_STATE Success) s1;
               s3 = emit (OnPurchaseSuccess purchaseInfo) s2
           in case (if truthy promo then promo else None) of
                Some c \<Rightarrow>
                  (let s4 = emit (RedeemCall c (userId s3)) s3
                   in case redeemPromoCode h c (userId s3) None (promoCodeService s4) of
                        Inl e \<Rightarrow> (Some e, s4)
                      | Inr u \<Rightarrow>
                          (None, emit (SetTimeout 2000) (dispatchPromo CLEAR_PROMO_CODE s4)))
              | None \<Rightarrow> (None, emit (SetTimeout 2000) s3)))"

text \<open>The \<open>catch\<close> and \<open>finally\<close> blocks.\<close>

definition purchasePlan_finish ::
  "host \<Rightarrow> string option \<Rightarrow> exn + PurchaseInfo \<Rightarrow> provider \<Rightarrow> provider" where
  "purchasePlan_finish h promo outcome s =
     (let s' = (case purchasePlan_try h promo outcome s of
                  (None, s1) \<Rightarrow> s1
                | (Some e, s1) \<Rightarrow>
                    (let msg = (if exn_message e = [] then ''Purchase failed'' else exn_message e);
                         s2 = dispatchPaywall (SET_PURCHASE_STATE Error) s1;
                         s3 = dispatchPaywall (SET_ERROR (Some msg)) s2
                     in emit (OnPurchaseError (exn_message e)) s3))
      in dispatchPaywall (SET_LOADING False) s')"

definition purchasePlan :: "host \<Rightarrow> provider \<Rightarrow> provider" where
  "purchasePlan h s =
     (case purchasePlan_start s of
        Returned s' \<Rightarrow> s'
      | AwaitBilling s' plan promo \<Rightarrow>
          purchasePlan_finish h promo (billing_purchase h plan promo) s')"

text \<open>The callback of the timer set after a successful purchase.\<close>

definition purchasePlan_timeout :: "provider \<Rightarrow> provider" where
  "purchasePlan_timeout s = dispatchPaywall (SET_PURCHASE_STATE Idle) (hidePaywall s)"

text \<open>\<open>applyPromoCode\<close> of the provider.\<close>

definition provider_applyPromoCode :: "host \<Rightarrow> clock \<Rightarrow> string \<Rightarrow> provider \<Rightarrow> provider" where
  "provider_applyPromoCode h clk c s =
     (case selectedPlan (paywallState s) of
        None \<Rightarrow> dispatchPaywall (SET_ERROR (Some ''Select a plan first'')) s
      | Some plan \<Rightarrow>
          (let s1 = dispatchPromo (SET_APPLYING True) s;
               (r, svc) = applyPromoCode h clk c plan (userId s1) (promoCodeService s1);
               s2 = s1\<lparr>promoCodeService := svc\<rparr>;
               s3 = (case r of
                       Inr application \<Rightarrow>
                         emit (OnPromoCodeApplied application)
                           (dispatchPromo (SET_APPLIED_PROMO (Some application))
                              (dispatchPaywall (SELECT_PLAN (discountedPlan application)) s2))
                     | Inl e \<Rightarrow> emit (OnPromoCodeError (exn_message e)) s2)
           in dispatchPromo (SET_APPLYING False) s3))"

text \<open>
  \<open>removePromoCode\<close>. The condition reads \<open>paywallState\<close> and \<open>promoCodeState\<close> of the
  render in which the callback was created, that is, the state before the dispatch.
\<close>

definition removePromoCode :: "provider \<Rightarrow> provider" where
  "removePromoCode s =
     (let s1 = dispatchPromo CLEAR_PROMO_CODE s
      in case (selectedPlan (paywallState s), appliedPromo (promoCodeState s)) of
           (Some p, Some a) \<Rightarrow> dispatchPaywall (SELECT_PLAN (originalPlan a)) s1
         | _ \<Rightarrow> s1)"

section \<open>Example data\<close>

text \<open>
  Concrete inputs for the evaluations below. \<open>monthlyPlan\<close> is the first of
  \<open>DEFAULT_PLANS\<close> (constants.ts).
\<close>

definition monthlyPlan :: SubscriptionPlan where
  "monthlyPlan =
     \<lparr>plan_id = ''monthly'', name = ''Monthly Premium'', description = ''Billed monthly'',
      price = 999 / 100, currency = ''USD'', duration = Monthly,
      features = [''Unlimited access'', ''Priority support'', ''Ad-free experience'',
                  ''Early access to features''],
      originalPrice = None, discountPercentage = None, isPopular = None,
      productId = Some ''premium_monthly''\<rparr>"

text \<open>
  A host whose backend cannot be reached, whose billing answers as \<open>mockPurchase\<close> does
  and whose date parser is \<open>Date_parse\<close>; and the same host with a backend that
  accepts the code \<open>SAVE20\<close>.
\<close>

definition offlineHost :: host where
  "offlineHost =
     \<lparr>date_parse = Date_parse,
      fetch_validate = (\<lambda>c p u. Inl (JsError ''Network request failed'')),
      fetch_redeem = (\<lambda>c u p. Inl (JsError ''Network request failed'')),
      billing_purchase =
        (\<lambda>plan promo. Inr \<lparr>transactionId = ''mock_1'',
                              finalPrice = (if truthy promo then price plan * (8 / 10)
                                            else price plan)\<rparr>),
      billing_status = Inr \<lparr>status_isActive = True, entitlements = [''premium'']\<rparr>\<rparr>"

definition onlineHost :: host where
  "onlineHost =
     offlineHost\<lparr>fetch_validate :=
       (\<lambda>c p u. if c = ''SAVE20''
                then Inr \<lparr>isValid = True, promoCode = Some SAVE20, discountedPrice = None,
                          message = ''Promo code applied successfully'', error = None\<rparr>
                else Inr (invalid ''Invalid promo code'' ''CODE_NOT_FOUND'')),
       fetch_redeem := (\<lambda>c u p. Inr ())\<rparr>"

text \<open>A fresh service without a backend (mock validation) and one with a backend.\<close>

definition mockService :: PromoCodeService where
  "mockService = \<lparr>backendUrl = None, cache = Map.empty, catalogCalls = 0\<rparr>"

definition backendService :: PromoCodeService where
  "backendService =
     \<lparr>backendUrl = Some ''https://api.example.com'', cache = Map.empty, catalogCalls = 0\<rparr>"

text \<open>
  Three calls: at 2024-02-01T00:00:00Z, one minute later, and a little more than ten
  minutes later.
\<close>

definition clockA :: clock where
  "clockA = \<lparr>t_lookup = 1706745600000, t_check = 1706745600500, t_store = 1706745600501,
             t_applied = 1706745600502\<rparr>"

definition clockB :: clock where
  "clockB = \<lparr>t_lookup = 1706745660000, t_check = 1706745660500, t_store = 1706745660501,
             t_applied = 1706745660502\<rparr>"

definition clockC :: clock where
  "clockC = \<lparr>t_lookup = 1706746201000, t_check = 1706746201500, t_store = 1706746201501,
             t_applied = 1706746201502\<rparr>"


text \<open>The provider after start-up, with a loaded user id, and with the monthly plan selected.\<close>

definition provider0 :: "PromoCodeService \<Rightarrow> provider" where
  "provider0 svc =
     \<lparr>paywallState = initialPaywallState, promoCodeState = initialPromoCodeState,
      subscriptionStatus = None, userId = UserId ''user_1'', promoCodeService = svc,
      events = []\<rparr>"

definition providerSelected :: "PromoCodeService \<Rightarrow> provider" where
  "providerSelected svc = selectPlan monthlyPlan (provider0 svc)"

text \<open>The service after one validation of \<open>SAVE20\<close> for the monthly plan at \<open>clockA\<close>.\<close>

definition serviceA :: PromoCodeService where
  "serviceA =
     snd (validatePromoCode offlineHost clockA ''SAVE20'' (Some ''monthly'') (UserId ''user_1'')
            mockService)"

text \<open>The host \<open>onlineHost\<close> once the backend has stopped answering redemption requests.\<close>

definition redeemDownHost :: host where
  "redeemDownHost =
     onlineHost\<lparr>fetch_redeem := (\<lambda>c u p. Inl (JsError ''Network request failed''))\<rparr>"

text \<open>The provider after \<open>SAVE20\<close> has been applied to the selected monthly plan.\<close>

definition providerApplied :: "host \<Rightarrow> PromoCodeService \<Rightarrow> provider" where
  "providerApplied h svc = provider_applyPromoCode h clockA ''SAVE20'' (providerSelected svc)"

text \<open>The provider state that a finished or suspended call of \<open>purchasePlan\<close> has reached.\<close>

fun state_of :: "suspended \<Rightarrow> provider" where
  "state_of (Returned s) = s"
| "state_of (AwaitBilling s plan promo) = s"

text \<open>The provider while a first purchase of the monthly plan waits for billing.\<close>

definition providerProcessing :: provider where
  "providerProcessing = state_of (purchasePlan_start (providerSelected mockService))"

section \<open>Evaluation of the example data\<close>

lemmas eval_defs = validatePromoCode_def validatePromoCode_try_def getCachedValidation_def
  age_def expired_def cacheExpiry_def validateWithBackend_def
  setCachedValidation_def stampMessage_def cacheKey_def show_planId_def show_userId_def
  normalizeCode_def toUpperCase_def trim_def isSpace_def upperChar_def truthy_def countCall_def
  mockValidate_def getMockPromoCodes_def getMockPlans_def SAVE20_def FREEMONTH_def SPECIAL50_def
  Date_parse_def digit_val_def days_from_civil_def date_lt_def date_gt_def invalid_def
  calculateDiscountedPrice_def show_int_def digit_char_def
  offlineHost_def onlineHost_def mockService_def backendService_def clockA_def clockB_def clockC_def

lemma normalizeCode_example: "normalizeCode '' save 20 '' = ''SAVE20''"
  by (simp add: normalizeCode_def toUpperCase_def trim_def isSpace_def upperChar_def)

lemma Date_parse_example: "Date_parse ''2024-01-01T00:00:00Z'' = Some 1704067200000"
  by (simp add: Date_parse_def digit_val_def days_from_civil_def)

lemma Date_parse_stamped:
  "Date_parse ''Promo code applied successfully|1706745600501'' = None"
  by (simp add: Date_parse_def)

lemma serviceA_eq:
  "serviceA =
     \<lparr>backendUrl = None,
      cache = [''SAVE20_monthly_user_1'' \<mapsto>
                 \<lparr>isValid = True, promoCode = Some SAVE20, discountedPrice = Some (999 / 125),
                  message = ''Promo code applied successfully|1706745600501'', error = None\<rparr>],
      catalogCalls = 1\<rparr>"
  by (simp add: serviceA_def eval_defs Let_def)

lemma serviceA_entry:
  "cache serviceA (cacheKey ''SAVE20'' (Some ''monthly'') (UserId ''user_1'')) =
     Some \<lparr>isValid = True, promoCode = Some SAVE20, discountedPrice = Some (999 / 125),
           message = ''Promo code applied successfully|1706745600501'', error = None\<rparr>"
  by (simp add: serviceA_eq cacheKey_def show_planId_def show_userId_def)

section \<open>Properties of the discount calculator\<close>



text \<open>
  Claim C10. The plan that \<open>applyDiscountToPlan\<close> derives has every field of the original
  plan except \<open>price\<close>, which is the discounted price, and \<open>description\<close>, which is the
  original description unless the discount is a free trial. The function builds a new
  value; nothing is written to the plan it is given.
\<close>

theorem C10_discounted_plan_frame:
  "plan_id (applyDiscountToPlan plan pc) = plan_id plan
   \<and> name (applyDiscountToPlan plan pc) = name plan
   \<and> currency (applyDiscountToPlan plan pc) = currency plan
   \<and> duration (applyDiscountToPlan plan pc) = duration plan
   \<and> features (applyDiscountToPlan plan pc) = features plan
   \<and> originalPrice (applyDiscountToPlan plan pc) = originalPrice plan
   \<and> discountPercentage (applyDiscountToPlan plan pc) = discountPercentage plan
   \<and> isPopular (applyDiscountToPlan plan pc) = isPopular plan
   \<and> productId (applyDiscountToPlan plan pc) = productId plan
   \<and> price (applyDiscountToPlan plan pc) = calculateDiscountedPrice plan pc
   \<and> (discount_type (discount pc) \<noteq> Free_trial \<longrightarrow>
        description (applyDiscountToPlan plan pc) = description plan)
   \<and> (discount_type (discount pc) = Free_trial \<longrightarrow>
        description (applyDiscountToPlan plan pc) =
          description plan @ '' - '' @ show_opt_int (discount_duration (discount pc))
            @ '' days free trial'')"
  by (simp add: applyDiscountToPlan_def Let_def)

theorem C10_discounted_plan_frame_witness:
  "discount_type (discount SAVE20) \<noteq> Free_trial
   \<and> applyDiscountToPlan monthlyPlan SAVE20 = monthlyPlan\<lparr>price := 999 / 125\<rparr>
   \<and> discount_type (discount FREEMONTH) = Free_trial
   \<and> applyDiscountToPlan monthlyPlan FREEMONTH =
        monthlyPlan\<lparr>price := 0, description := ''Billed monthly - 30 days free trial''\<rparr>"
proof -
  have "discount_type (discount SAVE20) \<noteq> Free_trial"
    and "discount_type (discount FREEMONTH) = Free_trial"
    by (simp_all add: SAVE20_def FREEMONTH_def)
  moreover have "calculateDiscountedPrice monthlyPlan SAVE20 = 999 / 125"
    and "calculateDiscountedPrice monthlyPlan FREEMONTH = 0"
    by (simp_all add: calculateDiscountedPrice_def monthlyPlan_def SAVE20_def FREEMONTH_def)
  moreover have "description monthlyPlan @ '' - ''
      @ show_opt_int (discount_duration (discount FREEMONTH)) @ '' days free trial''
      = ''Billed monthly - 30 days free trial''"
    by (simp add: monthlyPlan_def FREEMONTH_def show_opt_int_def show_int_def digit_char_def)
  ultimately show ?thesis
    using C10_discounted_plan_frame [of monthlyPlan SAVE20]
      C10_discounted_plan_frame [of monthlyPlan FREEMONTH]
    by (simp add: SubscriptionPlan.equality)
qed

section \<open>Properties of mock validation\<close>




section \<open>Properties of the validation cache\<close>


lemma getCachedValidation_live:
  "cache s key = Some e \<Longrightarrow> \<not> expired (age dp now e) \<Longrightarrow>
     getCachedValidation dp now key s = (Some e, s)"
  by (simp add: getCachedValidation_def)

text \<open>An entry whose message the host does not read as a date is never found expired.\<close>

lemma not_expired_NaN: "dp (message e) = None \<Longrightarrow> \<not> expired (age dp now e)"
  by (simp add: age_def expired_def)

lemma validatePromoCode_hit:
  assumes "cache s (cacheKey c planId uid) = Some e"
    and "\<not> expired (age (date_parse h) (t_lookup clk) e)"
  shows "validatePromoCode h clk c planId uid s = (Inr e, s)"
  using assms
  by (simp add: validatePromoCode_def validatePromoCode_try_def getCachedValidation_live)


text \<open>
  Claim C8. \<open>validatePromoCode\<close> always resolves to a validation value, and when the body
  of its \<open>try\<close> block throws, that value is the invalid one of the \<open>catch\<close> block.
\<close>

theorem C8_validate_never_throws:
  "\<exists>v s'. validatePromoCode h clk c planId uid s = (Inr v, s')
      \<and> (\<forall>e. fst (validatePromoCode_try h clk c planId uid s) = Inl e \<longrightarrow>
             v = invalid ''Invalid promo code'' ''VALIDATION_FAILED'' \<and> \<not> isValid v)"
  by (cases "validatePromoCode_try h clk c planId uid s")
     (auto simp: validatePromoCode_def invalid_def split: sum.splits)

text \<open>A service with a backend that cannot be reached.\<close>

theorem C8_validate_never_throws_witness:
  "fst (validatePromoCode_try offlineHost clockA ''SAVE20'' (Some ''monthly'') (UserId ''user_1'')
          backendService) = Inl (JsError ''Network request failed'')
   \<and> fst (validatePromoCode offlineHost clockA ''SAVE20'' (Some ''monthly'') (UserId ''user_1'')
            backendService) = Inr (invalid ''Invalid promo code'' ''VALIDATION_FAILED'')"
proof -
  have t: "fst (validatePromoCode_try offlineHost clockA ''SAVE20'' (Some ''monthly'')
                  (UserId ''user_1'') backendService) = Inl (JsError ''Network request failed'')"
    by (simp add: eval_defs Let_def)
  from C8_validate_never_throws
    [of offlineHost clockA "''SAVE20''" "Some ''monthly''" "UserId ''user_1''" backendService]
  obtain v s' where
    "validatePromoCode offlineHost clockA ''SAVE20'' (Some ''monthly'') (UserId ''user_1'')
       backendService = (Inr v, s')"
    and "\<forall>e. fst (validatePromoCode_try offlineHost clockA ''SAVE20'' (Some ''monthly'')
                    (UserId ''user_1'') backendService) = Inl e \<longrightarrow>
             v = invalid ''Invalid promo code'' ''VALIDATION_FAILED'' \<and> \<not> isValid v"
    by blast
  with t show ?thesis by simp
qed

text \<open>
  Claim C1, at a failing input. \<open>SAVE20\<close> is validated at \<open>clockA\<close> and stored with the
  message \<open>Promo code applied successfully|1706745600501\<close>. A lookup ten minutes later,
  twice the expiry time of five minutes, still returns the stored entry and asks the
  catalog nothing: \<open>Date.parse\<close> of the stamped message is \<open>NaN\<close>, so the age is
  \<open>NaN\<close> and the expiry test is false.
\<close>

theorem C1_entry_returned_after_expiry:
  "cacheExpiry < t_lookup clockC - t_store clockA
   \<and> catalogCalls serviceA = 1
   \<and> validatePromoCode offlineHost clockC ''SAVE20'' (Some ''monthly'') (UserId ''user_1'') serviceA
       = (Inr \<lparr>isValid = True, promoCode = Some SAVE20, discountedPrice = Some (999 / 125),
               message = ''Promo code applied successfully|1706745600501'', error = None\<rparr>,
          serviceA)"
proof -
  have "cacheExpiry < t_lookup clockC - t_store clockA"
    by (simp add: cacheExpiry_def clockA_def clockC_def)
  moreover have "catalogCalls serviceA = 1"
    by (simp add: serviceA_eq)
  moreover have "validatePromoCode offlineHost clockC ''SAVE20'' (Some ''monthly'')
        (UserId ''user_1'') serviceA
       = (Inr \<lparr>isValid = True, promoCode = Some SAVE20, discountedPrice = Some (999 / 125),
               message = ''Promo code applied successfully|1706745600501'', error = None\<rparr>,
          serviceA)"
  proof (rule validatePromoCode_hit [OF serviceA_entry])
    show "\<not> expired (age (date_parse offlineHost) (t_lookup clockC)
       \<lparr>isValid = True, promoCode = Some SAVE20, discountedPrice = Some (999 / 125),
        message = ''Promo code applied successfully|1706745600501'', error = None\<rparr>)"
      by (rule not_expired_NaN) (simp add: offlineHost_def Date_parse_stamped)
  qed
  ultimately show ?thesis by blast
qed




text \<open>
  A call that fails inside its \<open>try\<close> block stores nothing: with a backend that cannot
  be reached, the second of two equal calls sends a second request.
\<close>

lemma failed_call_is_not_cached:
  "validatePromoCode offlineHost clockA ''SAVE20'' (Some ''monthly'') (UserId ''user_1'')
     backendService
     = (Inr (invalid ''Invalid promo code'' ''VALIDATION_FAILED''), countCall backendService)
   \<and> catalogCalls (countCall backendService) = 1
   \<and> validatePromoCode offlineHost clockB ''SAVE20'' (Some ''monthly'') (UserId ''user_1'')
         (countCall backendService)
       = (Inr (invalid ''Invalid promo code'' ''VALIDATION_FAILED''),
          countCall (countCall backendService))
   \<and> catalogCalls (countCall (countCall backendService)) = 2"
  by (simp add: eval_defs Let_def)




section \<open>Properties of the provider\<close>

lemma plan_id_monthlyPlan: "plan_id monthlyPlan = ''monthly''"
  by (simp add: monthlyPlan_def)

lemma applyPromoCode_mock:
  "applyPromoCode offlineHost clockA ''SAVE20'' monthlyPlan (UserId ''user_1'') mockService
   = (Inr \<lparr>applied_promoCode = SAVE20, originalPlan = monthlyPlan,
           discountedPlan = applyDiscountToPlan monthlyPlan SAVE20, appliedAt = 1706745600502\<rparr>,
      serviceA)"
  by (simp add: applyPromoCode_def plan_id_monthlyPlan serviceA_def eval_defs Let_def)

lemma applyPromoCode_backend:
  "fst (applyPromoCode onlineHost clockA ''SAVE20'' monthlyPlan (UserId ''user_1'') backendService)
   = Inr \<lparr>applied_promoCode = SAVE20, originalPlan = monthlyPlan,
           discountedPlan = applyDiscountToPlan monthlyPlan SAVE20, appliedAt = 1706745600502\<rparr>"
  by (simp add: applyPromoCode_def plan_id_monthlyPlan eval_defs Let_def)

lemma backendUrl_validatePromoCode:
  "backendUrl (snd (validatePromoCode h clk c planId uid s)) = backendUrl s"
  by (simp add: validatePromoCode_def validatePromoCode_try_def getCachedValidation_def
        setCachedValidation_def countCall_def Let_def
        split: option.splits sum.splits prod.splits)

lemma backendUrl_applyPromoCode:
  "backendUrl (snd (applyPromoCode h clk c plan uid s)) = backendUrl s"
proof -
  obtain r s' where v: "validatePromoCode h clk c (Some (plan_id plan)) uid s = (r, s')"
    by (cases "validatePromoCode h clk c (Some (plan_id plan)) uid s")
  then have "backendUrl s' = backendUrl s"
    using backendUrl_validatePromoCode [of h clk c "Some (plan_id plan)" uid s] by simp
  then show ?thesis
    using v by (simp add: applyPromoCode_def split: sum.splits option.splits)
qed

lemma originalPlan_applyPromoCode:
  "applyPromoCode h clk c plan uid s = (Inr a, s') \<Longrightarrow> originalPlan a = plan"
  by (auto simp: applyPromoCode_def split: prod.splits sum.splits option.splits if_splits)

lemma providerSelected_fields:
  "selectedPlan (paywallState (providerSelected svc)) = Some monthlyPlan"
  "appliedPromo (promoCodeState (providerSelected svc)) = None"
  "userId (providerSelected svc) = UserId ''user_1''"
  "promoCodeService (providerSelected svc) = svc"
  "events (providerSelected svc) = []"
  "purchaseState (paywallState (providerSelected svc)) = Idle"
  by (simp_all add: providerSelected_def provider0_def selectPlan_def dispatchPaywall_def
        initialPaywallState_def initialPromoCodeState_def)

lemma provider_applyPromoCode_success:
  assumes "selectedPlan (paywallState s) = Some p"
    and "applyPromoCode h clk c p (userId s) (promoCodeService s) = (Inr a, svc)"
  shows "selectedPlan (paywallState (provider_applyPromoCode h clk c s)) = Some (discountedPlan a)"
    and "appliedPromo (promoCodeState (provider_applyPromoCode h clk c s)) = Some a"
    and "userId (provider_applyPromoCode h clk c s) = userId s"
    and "promoCodeService (provider_applyPromoCode h clk c s) = svc"
    and "events (provider_applyPromoCode h clk c s) = events s @ [OnPromoCodeApplied a]"
    and "purchaseState (paywallState (provider_applyPromoCode h clk c s))
           = purchaseState (paywallState s)"
  using assms
  by (simp_all add: provider_applyPromoCode_def dispatchPaywall_def dispatchPromo_def emit_def)

lemma purchasePlan_start_selected:
  assumes "selectedPlan (paywallState s) = Some plan"
  shows "purchasePlan_start s =
           AwaitBilling
             (s\<lparr>paywallState := (paywallState s)\<lparr>isLoading := True, purchaseState := Processing\<rparr>,
                events := events s @ [OnPurchaseStart plan,
                  BillingPurchase plan
                    (map_option (\<lambda>a. code (applied_promoCode a)) (appliedPromo (promoCodeState s)))]\<rparr>)
             plan (map_option (\<lambda>a. code (applied_promoCode a)) (appliedPromo (promoCodeState s)))"
  using assms
  by (simp add: purchasePlan_start_def dispatchPaywall_def emit_def Let_def)

text \<open>
  What \<open>purchasePlan\<close> does when billing succeeds with a promo code applied and the
  redemption that follows fails: the exception of \<open>redeemPromoCode\<close> reaches the
  \<open>catch\<close> block written for a failed purchase.
\<close>

lemma purchasePlan_redeem_failure:
  assumes sel: "selectedPlan (paywallState s) = Some plan"
    and promo: "appliedPromo (promoCodeState s) = Some a"
    and nonempty: "code (applied_promoCode a) \<noteq> []"
    and billed: "billing_purchase h plan (Some (code (applied_promoCode a))) = Inr info"
    and redeem: "redeemPromoCode h (code (applied_promoCode a)) (userId s) None
                   (promoCodeService s) = Inl e"
  shows "purchaseState (paywallState (purchasePlan h s)) = Error"
    and "paywall_error (paywallState (purchasePlan h s)) =
           Some (if exn_message e = [] then ''Purchase failed'' else exn_message e)"
    and "events (purchasePlan h s) =
           events s @ [OnPurchaseStart plan, BillingPurchase plan (Some (code (applied_promoCode a))),
                       OnPurchaseSuccess info, RedeemCall (code (applied_promoCode a)) (userId s),
                       OnPurchaseError (exn_message e)]"
    and "appliedPromo (promoCodeState (purchasePlan h s)) = Some a"
  using promo nonempty billed redeem
  by (simp_all add: purchasePlan_def purchasePlan_start_selected [OF sel] purchasePlan_finish_def
        purchasePlan_try_def refreshSubscriptionStatus_def dispatchPaywall_def dispatchPromo_def
        emit_def truthy_def Let_def split: sum.splits)

lemma providerApplied_backend:
  "selectedPlan (paywallState (providerApplied onlineHost backendService))
     = Some (applyDiscountToPlan monthlyPlan SAVE20)"
  "appliedPromo (promoCodeState (providerApplied onlineHost backendService))
     = Some \<lparr>applied_promoCode = SAVE20, originalPlan = monthlyPlan,
             discountedPlan = applyDiscountToPlan monthlyPlan SAVE20, appliedAt = 1706745600502\<rparr>"
  "userId (providerApplied onlineHost backendService) = UserId ''user_1''"
  "backendUrl (promoCodeService (providerApplied onlineHost backendService))
     = Some ''https://api.example.com''"
  "events (providerApplied onlineHost backendService)
     = [OnPromoCodeApplied
          \<lparr>applied_promoCode = SAVE20, originalPlan = monthlyPlan,
           discountedPlan = applyDiscountToPlan monthlyPlan SAVE20, appliedAt = 1706745600502\<rparr>]"
proof -
  let ?s = "providerSelected backendService"
  let ?a = "\<lparr>applied_promoCode = SAVE20, originalPlan = monthlyPlan,
             discountedPlan = applyDiscountToPlan monthlyPlan SAVE20, appliedAt = 1706745600502\<rparr>"
  let ?svc = "snd (applyPromoCode onlineHost clockA ''SAVE20'' monthlyPlan (UserId ''user_1'')
                     backendService)"
  have sel: "selectedPlan (paywallState ?s) = Some monthlyPlan"
    by (simp add: providerSelected_fields)
  have app: "applyPromoCode onlineHost clockA ''SAVE20'' monthlyPlan (userId ?s)
               (promoCodeService ?s) = (Inr ?a, ?svc)"
    using applyPromoCode_backend by (simp add: providerSelected_fields prod_eq_iff)
  note r = provider_applyPromoCode_success [OF sel app]
  show "selectedPlan (paywallState (providerApplied onlineHost backendService))
     = Some (applyDiscountToPlan monthlyPlan SAVE20)"
    using r(1) by (simp add: providerApplied_def)
  show "appliedPromo (promoCodeState (providerApplied onlineHost backendService)) = Some ?a"
    using r(2) by (simp add: providerApplied_def)
  show "userId (providerApplied onlineHost backendService) = UserId ''user_1''"
    using r(3) by (simp add: providerApplied_def providerSelected_fields)
  show "backendUrl (promoCodeService (providerApplied onlineHost backendService))
     = Some ''https://api.example.com''"
    using r(4) by (simp add: providerApplied_def backendUrl_applyPromoCode backendService_def)
  show "events (providerApplied onlineHost backendService) = [OnPromoCodeApplied ?a]"
    using r(5) by (simp add: providerApplied_def providerSelected_fields)
qed

text \<open>
  Claim C4, at a failing input. \<open>SAVE20\<close> is applied to the selected monthly plan with a
  backend configured. Billing then accepts the purchase, the provider sets the purchase
  state to \<open>success\<close> and reports the purchase to \<open>onPurchaseSuccess\<close>, and the
  redemption request fails. The call ends with the purchase state \<open>error\<close> and the error
  message of the redemption, and \<open>onPurchaseError\<close> is called after
  \<open>onPurchaseSuccess\<close>.
\<close>

theorem C4_redeem_failure_overwrites_success:
  "appliedPromo (promoCodeState (providerApplied onlineHost backendService))
     = Some \<lparr>applied_promoCode = SAVE20, originalPlan = monthlyPlan,
             discountedPlan = applyDiscountToPlan monthlyPlan SAVE20, appliedAt = 1706745600502\<rparr>
   \<and> billing_purchase redeemDownHost (applyDiscountToPlan monthlyPlan SAVE20) (Some ''SAVE20'')
       = Inr \<lparr>transactionId = ''mock_1'', finalPrice = 3996 / 625\<rparr>
   \<and> purchaseState (paywallState (purchasePlan redeemDownHost
         (providerApplied onlineHost backendService))) = Error
   \<and> paywall_error (paywallState (purchasePlan redeemDownHost
         (providerApplied onlineHost backendService))) = Some ''Failed to redeem promo code''
   \<and> events (purchasePlan redeemDownHost (providerApplied onlineHost backendService))
       = [OnPromoCodeApplied
            \<lparr>applied_promoCode = SAVE20, originalPlan = monthlyPlan,
             discountedPlan = applyDiscountToPlan monthlyPlan SAVE20, appliedAt = 1706745600502\<rparr>,
          OnPurchaseStart (applyDiscountToPlan monthlyPlan SAVE20),
          BillingPurchase (applyDiscountToPlan monthlyPlan SAVE20) (Some ''SAVE20''),
          OnPurchaseSuccess \<lparr>transactionId = ''mock_1'', finalPrice = 3996 / 625\<rparr>,
          RedeemCall ''SAVE20'' (UserId ''user_1''),
          OnPurchaseError ''Failed to redeem promo code'']"
proof -
  let ?s = "providerApplied onlineHost backendService"
  let ?a = "\<lparr>applied_promoCode = SAVE20, originalPlan = monthlyPlan,
             discountedPlan = applyDiscountToPlan monthlyPlan SAVE20, appliedAt = 1706745600502\<rparr>"
  let ?info = "\<lparr>transactionId = ''mock_1'', finalPrice = 3996 / 625\<rparr>"
  let ?e = "PaywallError ''REDEEM_FAILED'' ''Failed to redeem promo code''"
  have cs: "code SAVE20 = ''SAVE20''"
    by (simp add: SAVE20_def)
  have c: "code (applied_promoCode ?a) = ''SAVE20''"
    by (simp add: cs)
  have nonempty: "code (applied_promoCode ?a) \<noteq> []"
    by (simp add: SAVE20_def)
  have "price (applyDiscountToPlan monthlyPlan SAVE20) = 999 / 125"
    by (simp add: applyDiscountToPlan_def calculateDiscountedPrice_def monthlyPlan_def SAVE20_def)
  then have billed: "billing_purchase redeemDownHost (applyDiscountToPlan monthlyPlan SAVE20)
      (Some (code (applied_promoCode ?a))) = Inr ?info"
    by (simp add: cs redeemDownHost_def onlineHost_def offlineHost_def truthy_def)
  have redeem: "redeemPromoCode redeemDownHost (code (applied_promoCode ?a)) (userId ?s) None
      (promoCodeService ?s) = Inl ?e"
    by (simp add: redeemPromoCode_def redeemWithBackend_def providerApplied_backend truthy_def
          redeemDownHost_def)
  note r = purchasePlan_redeem_failure
    [OF providerApplied_backend(1) providerApplied_backend(2) nonempty billed redeem]
  have "purchaseState (paywallState (purchasePlan redeemDownHost ?s)) = Error"
    by (rule r(1))
  moreover have "paywall_error (paywallState (purchasePlan redeemDownHost ?s))
      = Some ''Failed to redeem promo code''"
    using r(2) by (simp add: exn_message_def)
  moreover have "events (purchasePlan redeemDownHost ?s)
       = [OnPromoCodeApplied ?a,
          OnPurchaseStart (applyDiscountToPlan monthlyPlan SAVE20),
          BillingPurchase (applyDiscountToPlan monthlyPlan SAVE20) (Some ''SAVE20''),
          OnPurchaseSuccess ?info,
          RedeemCall ''SAVE20'' (UserId ''user_1''),
          OnPurchaseError ''Failed to redeem promo code'']"
    using r(3) by (simp add: providerApplied_backend cs exn_message_def)
  ultimately show ?thesis
    using providerApplied_backend(2) billed by (simp add: cs)
qed

text \<open>
  Claim C5, as amended. \<open>purchasePlan\<close> does not read the purchase state. In every state
  with a selected plan, also one in which a purchase is processing, it sets
  \<open>isLoading\<close> and the purchase state \<open>processing\<close>, calls \<open>onPurchaseStart\<close> and
  sends a purchase request to billing for the selected plan and the applied promo code.
  Only a call without a selected plan returns at once: it sets the error
  \<open>No plan selected\<close> and sends nothing.
\<close>

theorem C5_purchase_has_no_processing_guard:
  "(\<forall>plan. selectedPlan (paywallState s) = Some plan \<longrightarrow>
      purchasePlan_start s =
        AwaitBilling (state_of (purchasePlan_start s)) plan
          (map_option (\<lambda>a. code (applied_promoCode a)) (appliedPromo (promoCodeState s)))
      \<and> events (state_of (purchasePlan_start s)) =
          events s @ [OnPurchaseStart plan,
            BillingPurchase plan
              (map_option (\<lambda>a. code (applied_promoCode a)) (appliedPromo (promoCodeState s)))]
      \<and> purchaseState (paywallState (state_of (purchasePlan_start s))) = Processing
      \<and> isLoading (paywallState (state_of (purchasePlan_start s))))
   \<and> (selectedPlan (paywallState s) = None \<longrightarrow>
        purchasePlan_start s =
          Returned (s\<lparr>paywallState := (paywallState s)\<lparr>paywall_error := Some ''No plan selected''\<rparr>\<rparr>))"
  by (simp add: purchasePlan_start_selected)
     (simp add: purchasePlan_start_def dispatchPaywall_def)

text \<open>A second call while the first purchase of the monthly plan waits for billing.\<close>

theorem C5_purchase_has_no_processing_guard_witness:
  "purchaseState (paywallState providerProcessing) = Processing
   \<and> selectedPlan (paywallState providerProcessing) = Some monthlyPlan
   \<and> purchasePlan_start providerProcessing =
       AwaitBilling (state_of (purchasePlan_start providerProcessing)) monthlyPlan None
   \<and> events (state_of (purchasePlan_start providerProcessing)) =
       events providerProcessing @ [OnPurchaseStart monthlyPlan, BillingPurchase monthlyPlan None]
   \<and> purchaseState (paywallState (state_of (purchasePlan_start providerProcessing))) = Processing"
proof -
  have st: "providerProcessing =
      (providerSelected mockService)
        \<lparr>paywallState := (paywallState (providerSelected mockService))
           \<lparr>isLoading := True, purchaseState := Processing\<rparr>,
         events := [OnPurchaseStart monthlyPlan, BillingPurchase monthlyPlan None]\<rparr>"
    by (simp add: providerProcessing_def
          purchasePlan_start_selected [OF providerSelected_fields(1)] providerSelected_fields)
  have sel: "selectedPlan (paywallState providerProcessing) = Some monthlyPlan"
    and no_promo: "appliedPromo (promoCodeState providerProcessing) = None"
    and proc: "purchaseState (paywallState providerProcessing) = Processing"
    by (simp_all add: st providerSelected_fields)
  from C5_purchase_has_no_processing_guard [of providerProcessing] sel no_promo proc
  show ?thesis by simp
qed

text \<open>
  The claim as stated fails: with one purchase processing, a second call is not rejected
  but sends a second request to billing.
\<close>

theorem C5_counterexample_second_billing_call:
  "purchaseState (paywallState providerProcessing) = Processing
   \<and> events providerProcessing = [OnPurchaseStart monthlyPlan, BillingPurchase monthlyPlan None]
   \<and> events (state_of (purchasePlan_start providerProcessing)) =
       [OnPurchaseStart monthlyPlan, BillingPurchase monthlyPlan None,
        OnPurchaseStart monthlyPlan, BillingPurchase monthlyPlan None]"
proof -
  have st: "providerProcessing =
      (providerSelected mockService)
        \<lparr>paywallState := (paywallState (providerSelected mockService))
           \<lparr>isLoading := True, purchaseState := Processing\<rparr>,
         events := [OnPurchaseStart monthlyPlan, BillingPurchase monthlyPlan None]\<rparr>"
    by (simp add: providerProcessing_def
          purchasePlan_start_selected [OF providerSelected_fields(1)] providerSelected_fields)
  have sel: "selectedPlan (paywallState providerProcessing) = Some monthlyPlan"
    and no_promo: "appliedPromo (promoCodeState providerProcessing) = None"
    and proc: "purchaseState (paywallState providerProcessing) = Processing"
    and ev: "events providerProcessing = [OnPurchaseStart monthlyPlan, BillingPurchase monthlyPlan None]"
    by (simp_all add: st providerSelected_fields)
  show ?thesis
    by (simp add: purchasePlan_start_selected [OF sel] no_promo proc ev)
qed

lemma hidePaywall_fields:
  "promoCodeState (hidePaywall s) = promoCodeState s"
  "selectedPlan (paywallState (hidePaywall s)) = None"
  by (simp_all add: hidePaywall_def dispatchPaywall_def emit_def)

lemma providerApplied_mock:
  "selectedPlan (paywallState (providerApplied offlineHost mockService))
     = Some (applyDiscountToPlan monthlyPlan SAVE20)"
  "appliedPromo (promoCodeState (providerApplied offlineHost mockService))
     = Some \<lparr>applied_promoCode = SAVE20, originalPlan = monthlyPlan,
             discountedPlan = applyDiscountToPlan monthlyPlan SAVE20, appliedAt = 1706745600502\<rparr>"
proof -
  let ?s = "providerSelected mockService"
  have sel: "selectedPlan (paywallState ?s) = Some monthlyPlan"
    by (simp add: providerSelected_fields)
  have app: "applyPromoCode offlineHost clockA ''SAVE20'' monthlyPlan (userId ?s)
               (promoCodeService ?s)
             = (Inr \<lparr>applied_promoCode = SAVE20, originalPlan = monthlyPlan,
                     discountedPlan = applyDiscountToPlan monthlyPlan SAVE20,
                     appliedAt = 1706745600502\<rparr>, serviceA)"
    by (simp add: providerSelected_fields applyPromoCode_mock)
  note r = provider_applyPromoCode_success [OF sel app]
  show "selectedPlan (paywallState (providerApplied offlineHost mockService))
     = Some (applyDiscountToPlan monthlyPlan SAVE20)"
    using r(1) by (simp add: providerApplied_def)
  show "appliedPromo (promoCodeState (providerApplied offlineHost mockService))
     = Some \<lparr>applied_promoCode = SAVE20, originalPlan = monthlyPlan,
             discountedPlan = applyDiscountToPlan monthlyPlan SAVE20, appliedAt = 1706745600502\<rparr>"
    using r(2) by (simp add: providerApplied_def)
qed

text \<open>
  Claim C9, as amended. \<open>removePromoCode\<close> always clears the promo code, the validation
  and the applied record in one step. When a promo application is live and a plan is
  selected, it sets the selected plan to the \<open>originalPlan\<close> of the application, so
  applying a code to a selected plan and removing it gives back that plan. When no plan is
  selected, the selection stays empty.
\<close>

theorem C9_remove_restores_original_plan:
  "promoCodeState (removePromoCode s)
     = (promoCodeState s)\<lparr>input_code := [], validation := None, appliedPromo := None\<rparr>
   \<and> (\<forall>a p. appliedPromo (promoCodeState s) = Some a \<and> selectedPlan (paywallState s) = Some p \<longrightarrow>
          selectedPlan (paywallState (removePromoCode s)) = Some (originalPlan a))
   \<and> (selectedPlan (paywallState s) = None \<longrightarrow>
          selectedPlan (paywallState (removePromoCode s)) = None)
   \<and> (\<forall>p a svc. selectedPlan (paywallState s) = Some p
          \<and> applyPromoCode h clk c p (userId s) (promoCodeService s) = (Inr a, svc) \<longrightarrow>
          selectedPlan (paywallState (provider_applyPromoCode h clk c s)) = Some (discountedPlan a)
          \<and> selectedPlan (paywallState (removePromoCode (provider_applyPromoCode h clk c s)))
              = Some p)"
proof -
  have clear: "promoCodeState (removePromoCode t)
     = (promoCodeState t)\<lparr>input_code := [], validation := None, appliedPromo := None\<rparr>" for t
    by (simp add: removePromoCode_def dispatchPromo_def dispatchPaywall_def Let_def
          split: option.splits)
  have restore: "selectedPlan (paywallState (removePromoCode t)) = Some (originalPlan a)"
    if "appliedPromo (promoCodeState t) = Some a" "selectedPlan (paywallState t) = Some p"
    for t a p
    using that by (simp add: removePromoCode_def dispatchPromo_def dispatchPaywall_def)
  have none: "selectedPlan (paywallState (removePromoCode s)) = None"
    if "selectedPlan (paywallState s) = None"
    using that by (simp add: removePromoCode_def dispatchPromo_def)
  have roundtrip:
    "selectedPlan (paywallState (provider_applyPromoCode h clk c s)) = Some (discountedPlan a)
     \<and> selectedPlan (paywallState (removePromoCode (provider_applyPromoCode h clk c s))) = Some p"
    if sel: "selectedPlan (paywallState s) = Some p"
      and app: "applyPromoCode h clk c p (userId s) (promoCodeService s) = (Inr a, svc)"
    for p a svc
  proof -
    note r = provider_applyPromoCode_success [OF sel app]
    from restore [OF r(2) r(1)] originalPlan_applyPromoCode [OF app] r(1)
    show ?thesis by simp
  qed
  from clear [of s] restore [of s] none roundtrip show ?thesis by blast
qed

text \<open>\<open>SAVE20\<close> applied to the selected monthly plan and removed again.\<close>

theorem C9_remove_restores_original_plan_witness:
  "selectedPlan (paywallState (providerSelected mockService)) = Some monthlyPlan
   \<and> selectedPlan (paywallState (providerApplied offlineHost mockService))
       = Some (applyDiscountToPlan monthlyPlan SAVE20)
   \<and> price (applyDiscountToPlan monthlyPlan SAVE20) = 999 / 125
   \<and> selectedPlan (paywallState (removePromoCode (providerApplied offlineHost mockService)))
       = Some monthlyPlan
   \<and> appliedPromo (promoCodeState (removePromoCode (providerApplied offlineHost mockService)))
       = None"
proof -
  let ?s = "providerSelected mockService"
  have sel: "selectedPlan (paywallState ?s) = Some monthlyPlan"
    by (simp add: providerSelected_fields)
  have app: "applyPromoCode offlineHost clockA ''SAVE20'' monthlyPlan (userId ?s)
               (promoCodeService ?s)
             = (Inr \<lparr>applied_promoCode = SAVE20, originalPlan = monthlyPlan,
                     discountedPlan = applyDiscountToPlan monthlyPlan SAVE20,
                     appliedAt = 1706745600502\<rparr>, serviceA)"
    by (simp add: providerSelected_fields applyPromoCode_mock)
  have pr: "price (applyDiscountToPlan monthlyPlan SAVE20) = 999 / 125"
    by (simp add: applyDiscountToPlan_def calculateDiscountedPrice_def monthlyPlan_def SAVE20_def)
  from C9_remove_restores_original_plan [of ?s offlineHost clockA "''SAVE20''"] sel app
  have "selectedPlan (paywallState (provider_applyPromoCode offlineHost clockA ''SAVE20'' ?s))
          = Some (applyDiscountToPlan monthlyPlan SAVE20)
        \<and> selectedPlan (paywallState (removePromoCode
             (provider_applyPromoCode offlineHost clockA ''SAVE20'' ?s))) = Some monthlyPlan"
    by fastforce
  moreover from C9_remove_restores_original_plan
    [of "provider_applyPromoCode offlineHost clockA ''SAVE20'' ?s" offlineHost clockA "''SAVE20''"]
  have "appliedPromo (promoCodeState (removePromoCode
          (provider_applyPromoCode offlineHost clockA ''SAVE20'' ?s))) = None"
    by simp
  ultimately show ?thesis
    using sel pr by (simp add: providerApplied_def)
qed

text \<open>
  The claim as stated fails in a state the provider reaches by its own actions: after
  \<open>SAVE20\<close> has been applied and the paywall hidden, the application is still live but
  no plan is selected, and \<open>removePromoCode\<close> leaves the selection empty instead of
  restoring the monthly plan.
\<close>

theorem C9_counterexample_no_plan_selected:
  "appliedPromo (promoCodeState (hidePaywall (providerApplied offlineHost mockService)))
     = Some \<lparr>applied_promoCode = SAVE20, originalPlan = monthlyPlan,
             discountedPlan = applyDiscountToPlan monthlyPlan SAVE20, appliedAt = 1706745600502\<rparr>
   \<and> selectedPlan (paywallState (removePromoCode
        (hidePaywall (providerApplied offlineHost mockService)))) = None
   \<and> selectedPlan (paywallState (removePromoCode
        (hidePaywall (providerApplied offlineHost mockService)))) \<noteq> Some monthlyPlan"
  by (simp add: hidePaywall_fields providerApplied_mock removePromoCode_def dispatchPromo_def)

end
